theory Spec2Isabelle
  imports Complex_Main "HOL-Library.Multiset"
begin

section \<open>Python values and exceptions\<close>

text \<open>
  The exception classes that the modelled functions can raise. A function that can raise
  returns \<open>py_error + 'a\<close>, with \<open>Inl\<close> the exception. Python and numpy floats are
  modelled by exact real numbers, Python integers by \<open>int\<close>.
\<close>

datatype py_error = ZeroDivisionError | TypeError | IndexError | KeyError | ValueError

section \<open>metrics/area_of_interest.py\<close>

subsection \<open>calc_percent_intersection\<close>

text \<open>
  A box and the area of interest are indexed at positions 0 to 3 only, so both are a value
  with four coordinates.
\<close>

datatype coords = Coords (c0: real) (c1: real) (c2: real) (c3: real)

text \<open>
  The body of the \<open>for\<close> loop for one box. The quotient \<open>intersection_area / box_area\<close> of
  Python floats raises ZeroDivisionError when the box has no area (numpy scalars would give
  nan there, which is no number either).
\<close>

definition intersection_area :: "coords \<Rightarrow> coords \<Rightarrow> real" where
  "intersection_area box aoi_coords =
     (min (c2 aoi_coords) (c2 box) - max (c0 aoi_coords) (c0 box)) *
     (min (c3 aoi_coords) (c3 box) - max (c1 aoi_coords) (c1 box))"

definition box_area :: "coords \<Rightarrow> real" where
  "box_area box = (c2 box - c0 box) * (c3 box - c1 box)"

definition percent_intersection :: "coords \<Rightarrow> coords \<Rightarrow> py_error + real" where
  "percent_intersection box aoi_coords =
     (let x_left = max (c0 aoi_coords) (c0 box);
          y_top = max (c1 aoi_coords) (c1 box);
          x_right = min (c2 aoi_coords) (c2 box);
          y_bottom = min (c3 aoi_coords) (c3 box)
      in if x_right < x_left \<or> y_bottom < y_top then Inr 0
         else if box_area box = 0 then Inl ZeroDivisionError
         else if intersection_area box aoi_coords / box_area box = 1 then Inr 1
         else Inr (intersection_area box aoi_coords / box_area box))"

fun calc_percent_intersection :: "coords list \<Rightarrow> coords \<Rightarrow> py_error + real list" where
  "calc_percent_intersection [] aoi_coords = Inr []"
| "calc_percent_intersection (box # detection_boxes) aoi_coords =
     (case percent_intersection box aoi_coords of
        Inl e \<Rightarrow> Inl e
      | Inr v \<Rightarrow>
          (case calc_percent_intersection detection_boxes aoi_coords of
             Inl e \<Rightarrow> Inl e
           | Inr aou \<Rightarrow> Inr (v # aou)))"

text \<open>
  The words of the contract: the intersection rectangle is empty, and the box
  \<open>(xmin, ymin, xmax, ymax)\<close> lies inside the area of interest.
\<close>

definition disjoint_boxes :: "coords \<Rightarrow> coords \<Rightarrow> bool" where
  "disjoint_boxes box aoi_coords =
     (min (c2 aoi_coords) (c2 box) < max (c0 aoi_coords) (c0 box) \<or>
      min (c3 aoi_coords) (c3 box) < max (c1 aoi_coords) (c1 box))"

definition contained_in :: "coords \<Rightarrow> coords \<Rightarrow> bool" where
  "contained_in box aoi_coords =
     (c0 aoi_coords \<le> c0 box \<and> c0 box \<le> c2 box \<and> c2 box \<le> c2 aoi_coords \<and>
      c1 aoi_coords \<le> c1 box \<and> c1 box \<le> c3 box \<and> c3 box \<le> c3 aoi_coords)"

subsection \<open>filter_box_annotations\<close>

record box_annotations =
  num_detections :: int
  detection_scores :: "real list"
  detection_boxes :: "coords list"
  detection_classes :: "int list"
  health_weights :: "real list"

text \<open>Of a DeviceCalibration only \<open>coordinates\<close> is read.\<close>

record device_calibration =
  coordinates :: coords

text \<open>
  \<open>CATEGORY_INDEX\<close> (coders/types.py) is a parameter of the model: the map from a class
  id to the \<open>health_weight\<close> entry of its category; a class id that is no key raises
  KeyError.
\<close>

type_synonym category_index = "int \<rightharpoonup> real"

fun lookup_health_weights :: "category_index \<Rightarrow> int list \<Rightarrow> py_error + real list" where
  "lookup_health_weights cat [] = Inr []"
| "lookup_health_weights cat (i # classes) =
     (case cat i of
        None \<Rightarrow> Inl KeyError
      | Some w \<Rightarrow>
          (case lookup_health_weights cat classes of
             Inl e \<Rightarrow> Inl e
           | Inr ws \<Rightarrow> Inr (w # ws)))"

text \<open>
  numpy's \<open>a[mask]\<close> with a boolean mask: the entries of \<open>a\<close> where the mask is True, in
  order; IndexError when the mask's length is not the array's.
\<close>

definition mask_index :: "'a list \<Rightarrow> bool list \<Rightarrow> py_error + 'a list" where
  "mask_index a bmask =
     (if length a \<noteq> length bmask then Inl IndexError
      else Inr (map fst (filter snd (zip a bmask))))"

definition count_nonzero :: "bool list \<Rightarrow> int" where
  "count_nonzero bmask = int (length (filter id bmask))"

text \<open>
  The mask. In Python \<open>&\<close> binds tighter than \<open><\<close> and \<open>>\<close>, so the expression of the
  calibrated branch is the chained comparison
  \<open>percent_intersection < (min_calibration_area_overlap & detection_scores) > min_score_threshold\<close>.
  Python evaluates its operands from the left: after \<open>percent_intersection\<close> comes
  \<open>min_calibration_area_overlap & detection_scores\<close>, a float and an array of floats, for
  which numpy's bitwise_and has no loop; it raises TypeError whatever the array holds, an
  empty array included. So the calibrated branch raises once \<open>calc_percent_intersection\<close>
  has returned, and no comparison is reached.
\<close>

definition ignored_mask ::
  "real list \<Rightarrow> coords list \<Rightarrow> device_calibration option \<Rightarrow> real \<Rightarrow> real \<Rightarrow>
     py_error + bool list" where
  "ignored_mask scores boxes calibration min_calibration_area_overlap min_score_threshold =
     (case calibration of
        Some c \<Rightarrow>
          (case calc_percent_intersection boxes (coordinates c) of
             Inl e \<Rightarrow> Inl e
           | Inr percent \<Rightarrow> Inl TypeError)
      | None \<Rightarrow> Inr (map (\<lambda>s. s > min_score_threshold) scores))"

definition filter_box_annotations ::
  "category_index \<Rightarrow> box_annotations \<Rightarrow> device_calibration option \<Rightarrow> real \<Rightarrow> real \<Rightarrow>
     py_error + box_annotations" where
  "filter_box_annotations cat element calibration min_calibration_area_overlap
       min_score_threshold =
     (case ignored_mask (detection_scores element) (detection_boxes element) calibration
             min_calibration_area_overlap min_score_threshold of
        Inl e \<Rightarrow> Inl e
      | Inr bmask \<Rightarrow>
          (case mask_index (detection_boxes element) bmask of
             Inl e \<Rightarrow> Inl e
           | Inr filtered_detection_boxes \<Rightarrow>
               (case mask_index (detection_scores element) bmask of
                  Inl e \<Rightarrow> Inl e
                | Inr filtered_detection_scores \<Rightarrow>
                    (case mask_index (detection_classes element) bmask of
                       Inl e \<Rightarrow> Inl e
                     | Inr filtered_detection_classes \<Rightarrow>
                         (case lookup_health_weights cat filtered_detection_classes of
                            Inl e \<Rightarrow> Inl e
                          | Inr weights \<Rightarrow>
                              Inr \<lparr>num_detections = count_nonzero bmask,
                                   detection_scores = filtered_detection_scores,
                                   detection_boxes = filtered_detection_boxes,
                                   detection_classes = filtered_detection_classes,
                                   health_weights = weights\<rparr>)))))"

text \<open>The defaults of the keyword arguments.\<close>

definition default_min_calibration_area_overlap :: real where
  "default_min_calibration_area_overlap = 0.75"

definition default_min_score_threshold :: real where
  "default_min_score_threshold = 0.66"

section \<open>transforms/health.py\<close>

subsection \<open>The records of coders/types.py, as far as the transforms read or build them\<close>

record metadata =
  md_client_version :: string
  md_print_session :: string
  md_user_id :: int
  md_octoprint_device_id :: int
  md_cloudiot_device_id :: int
  md_window_start :: "int option"
  md_window_end :: "int option"

record nested_telemetry_event =
  ev_client_version :: string
  ev_print_session :: string
  ev_user_id :: int
  ev_octoprint_device_id :: int
  ev_cloudiot_device_id :: int
  ev_ts :: real
  ev_detection_scores :: "real list"
  ev_detection_classes :: "int list"
  ev_num_detections :: int

record windowed_health_record =
  hr_metadata :: metadata
  hr_ts :: real
  hr_print_session :: string
  hr_detection_score :: real
  hr_detection_class :: int
  hr_health_weight :: real
  hr_health_score :: real

text \<open>A window of the runner: \<open>int(window.start)\<close> and \<open>int(window.end)\<close>.\<close>

record window =
  win_start :: int
  win_end :: int

text \<open>Of the pane only \<open>is_last\<close> is read.\<close>

record pane_info =
  is_last :: bool

subsection \<open>ExplodeWindowedHealthRecord\<close>

text \<open>
  One entry of the list comprehension. The keyword arguments are evaluated in order:
  \<open>detection_scores[i]\<close>, \<open>detection_classes[i]\<close> (IndexError out of range), then the
  lookups in \<open>CATEGORY_INDEX\<close> (KeyError).
\<close>

definition explode_at ::
  "category_index \<Rightarrow> nested_telemetry_event \<Rightarrow> metadata \<Rightarrow> nat \<Rightarrow>
     py_error + windowed_health_record" where
  "explode_at cat element md i =
     (if length (ev_detection_scores element) \<le> i then Inl IndexError
      else if length (ev_detection_classes element) \<le> i then Inl IndexError
      else
        (case cat (ev_detection_classes element ! i) of
           None \<Rightarrow> Inl KeyError
         | Some w \<Rightarrow>
             Inr \<lparr>hr_metadata = md,
                  hr_ts = ev_ts element,
                  hr_print_session = ev_print_session element,
                  hr_detection_score = ev_detection_scores element ! i,
                  hr_detection_class = ev_detection_classes element ! i,
                  hr_health_weight = w,
                  hr_health_score = w * (ev_detection_scores element ! i)\<rparr>))"

fun collect :: "('a \<Rightarrow> py_error + 'b) \<Rightarrow> 'a list \<Rightarrow> py_error + 'b list" where
  "collect f [] = Inr []"
| "collect f (x # xs) =
     (case f x of
        Inl e \<Rightarrow> Inl e
      | Inr y \<Rightarrow> (case collect f xs of Inl e \<Rightarrow> Inl e | Inr ys \<Rightarrow> Inr (y # ys)))"

definition explode_process ::
  "category_index \<Rightarrow> nested_telemetry_event \<Rightarrow> window \<Rightarrow>
     py_error + windowed_health_record list" where
  "explode_process cat element w =
     (let md = \<lparr>md_client_version = ev_client_version element,
                  md_print_session = ev_print_session element,
                  md_user_id = ev_user_id element,
                  md_octoprint_device_id = ev_octoprint_device_id element,
                  md_cloudiot_device_id = ev_cloudiot_device_id element,
                  md_window_start = Some (win_start w),
                  md_window_end = Some (win_end w)\<rparr>
      in collect (explode_at cat element md) [0 ..< nat (ev_num_detections element)])"

subsection \<open>health_score_trend_polynomial_v1\<close>

text \<open>
  A pandas Series is its list of (index, value) pairs. \<open>groupby(["ts"])\<close> has one group
  for each distinct timestamp of the frame, in ascending order, and \<open>max()\<close> or \<open>min()\<close>
  reduces the health scores of each group.
\<close>

type_synonym series = "(real \<times> real) list"

definition groupby_ts :: "(real set \<Rightarrow> real) \<Rightarrow> windowed_health_record list \<Rightarrow> series" where
  "groupby_ts agg df =
     map (\<lambda>t. (t, agg (set (map hr_health_score (filter (\<lambda>r. hr_ts r = t) df)))))
       (sort (remdups (map hr_ts df)))"

text \<open>
  \<open>a.add(b, fill_value=0)\<close>: the index is the sorted union of both indexes, and a side that
  lacks a key counts as 0 there.
\<close>

definition series_get :: "series \<Rightarrow> real \<Rightarrow> real" where
  "series_get a t = (case map_of a t of None \<Rightarrow> 0 | Some v \<Rightarrow> v)"

definition series_add :: "series \<Rightarrow> series \<Rightarrow> series" where
  "series_add a b =
     map (\<lambda>t. (t, series_get a t + series_get b t)) (sort (remdups (map fst a @ map fst b)))"

fun running_sum :: "real \<Rightarrow> real list \<Rightarrow> real list" where
  "running_sum acc [] = []"
| "running_sum acc (x # xs) = (acc + x) # running_sum (acc + x) xs"

definition series_cumsum :: "series \<Rightarrow> series" where
  "series_cumsum a = zip (map fst a) (running_sum 0 (map snd a))"

definition xy_series :: "windowed_health_record list \<Rightarrow> series" where
  "xy_series df =
     series_cumsum
       (series_add (groupby_ts Max (filter (\<lambda>r. hr_health_weight r > 0) df))
          (groupby_ts Min (filter (\<lambda>r. hr_health_weight r < 0) df)))"

text \<open>
  \<open>numpy.polynomial.polynomial.Polynomial.fit\<close> is a parameter of the model: it takes the
  x values, the y values and the degree, and raises or returns a polynomial, of which the
  transform reads \<open>coef\<close>, \<open>domain\<close>, \<open>roots()\<close> and \<open>degree()\<close>.
\<close>

record np_polynomial =
  np_coef :: "real list"
  np_domain :: "real list"
  np_roots :: "real list"
  np_degree :: int

type_synonym polyfit = "real list \<Rightarrow> real list \<Rightarrow> int \<Rightarrow> py_error + np_polynomial"

definition health_score_trend_polynomial_v1 ::
  "polyfit \<Rightarrow> windowed_health_record list \<Rightarrow> int \<Rightarrow> py_error + series \<times> np_polynomial" where
  "health_score_trend_polynomial_v1 fit df degree =
     (let xy = xy_series df
      in case fit (map fst xy) (map snd xy) degree of
           Inl e \<Rightarrow> Inl e
         | Inr trend \<Rightarrow> Inr (xy, trend))"

subsection \<open>SortWindowedHealthDataframe\<close>

record sort_windowed_health_dataframe =
  polyfit_degree :: int
  warmup :: int

text \<open>\<open>__init__(self, warmup=3, polyfit_degree=1)\<close>, as written.\<close>

definition SortWindowedHealthDataframe_init :: "int \<Rightarrow> int \<Rightarrow> sort_windowed_health_dataframe" where
  "SortWindowedHealthDataframe_init warmup_arg polyfit_degree_arg =
     \<lparr>polyfit_degree = 1, warmup = warmup_arg\<rparr>"

definition default_warmup :: int where
  "default_warmup = 3"

definition default_polyfit_degree :: int where
  "default_polyfit_degree = 1"

record nested_windowed_health_trend =
  tr_print_session :: string
  poly_coef :: "real list"
  poly_domain :: "real list"
  poly_roots :: "real list"
  poly_degree :: int
  tr_cumsum :: "real list"
  tr_metadata :: metadata
  tr_health_score :: "real list"
  tr_health_weight :: "real list"
  tr_detection_class :: "int list"
  tr_detection_score :: "real list"

text \<open>What the transforms write to the log.\<close>

datatype log_entry =
  Log_fatal_error py_error
| Log_emitting int int
| Log_pane bool
| Log_failures int

text \<open>
  \<open>sort_values("ts")\<close> is a parameter of the model. pandas sorts with an unstable sort by
  default, so the source fixes the order of the rows of the frame only up to rows of equal
  \<open>ts\<close>: what it fixes is that the frame holds the same rows as the records, in ascending
  order of \<open>ts\<close>.
\<close>

type_synonym sort_values = "windowed_health_record list \<Rightarrow> windowed_health_record list"

definition sorted_by_ts :: "sort_values \<Rightarrow> windowed_health_record list \<Rightarrow> bool" where
  "sorted_by_ts sort_values rs =
     (mset (sort_values rs) = mset rs \<and> sorted (map hr_ts (sort_values rs)))"

text \<open>
  The generator \<open>process\<close>: the result is the log and the list of the pairs it yields, or
  the exception that leaves it.
  \<^item> \<open>pd.DataFrame(data=[])\<close> has no column \<open>ts\<close>, so \<open>sort_values("ts")\<close> raises KeyError
    on an empty record list. (The runner's grouping never delivers one.)
  \<^item> Only ValueError is caught around the fit; any other exception leaves \<open>process\<close>.
  \<^item> The per-record arrays and the metadata (of the first row) are read from the sorted
    frame.
\<close>

definition sort_process ::
  "sort_windowed_health_dataframe \<Rightarrow> polyfit \<Rightarrow> sort_values \<Rightarrow>
     string \<times> windowed_health_record list \<Rightarrow> window \<Rightarrow>
     py_error + log_entry list \<times> (string \<times> nested_windowed_health_trend) list" where
  "sort_process self fit sort_values keyed_elements w =
     (let key = fst keyed_elements;
          windowed_health_records = snd keyed_elements
      in if windowed_health_records = [] then Inl KeyError
         else
           (let df = sort_values windowed_health_records
            in if int (length df) < warmup self then Inr ([], [])
               else
                 (case health_score_trend_polynomial_v1 fit df (polyfit_degree self) of
                    Inl e \<Rightarrow> (if e = ValueError then Inr ([Log_fatal_error e], []) else Inl e)
                  | Inr (cumsum, trend) \<Rightarrow>
                      Inr ([Log_emitting (win_start w) (win_end w)],
                           [(key,
                             \<lparr>tr_print_session = key,
                              poly_coef = np_coef trend,
                              poly_domain = np_domain trend,
                              poly_roots = np_roots trend,
                              poly_degree = np_degree trend,
                              tr_cumsum = map snd cumsum,
                              tr_metadata = hr_metadata (hd df),
                              tr_health_score = map hr_health_score df,
                              tr_health_weight = map hr_health_weight df,
                              tr_detection_class = map hr_detection_class df,
                              tr_detection_score = map hr_detection_score df\<rparr>)]))))"

text \<open>What a result emits: nothing when an exception left the generator.\<close>

definition emitted :: "py_error + 'l \<times> 'o list \<Rightarrow> 'o list" where
  "emitted r = (case r of Inl e \<Rightarrow> [] | Inr (l, out) \<Rightarrow> out)"

subsection \<open>CreateVideoRenderMessage\<close>

text \<open>\<open>os.path.join\<close> of posixpath: an absolute component discards what precedes it.\<close>

definition join2 :: "string \<Rightarrow> string \<Rightarrow> string" where
  "join2 path b =
     (if b \<noteq> [] \<and> hd b = CHR ''/'' then b
      else if path = [] \<or> last path = CHR ''/'' then path @ b
      else path @ ''/'' @ b)"

definition path_join :: "string \<Rightarrow> string list \<Rightarrow> string" where
  "path_join a p = foldl join2 a p"

record create_video_render_message =
  in_base_path :: string
  out_base_path :: string
  cdn_base_path :: string
  cdn_upload_path :: string
  bucket :: string

datatype alert_event_type = video_done

record render_video_message =
  rv_print_session :: string
  rv_metadata :: metadata
  rv_event_type :: alert_event_type
  rv_gcs_input :: string
  rv_gcs_output :: string
  rv_cdn_output :: string
  rv_cdn_relative :: string
  rv_bucket :: string

text \<open>
  \<open>process\<close>, with the date stamp of \<open>datetime.now()\<close> as an argument. It yields the
  message (the model leaves out the serialisation \<open>to_bytes\<close>); \<open>values[0]\<close> raises
  IndexError on an empty list. \<open>pane_info\<close> is only logged.
\<close>

definition render_process ::
  "create_video_render_message \<Rightarrow> string \<Rightarrow> string \<times> nested_telemetry_event list \<Rightarrow>
     pane_info \<Rightarrow> py_error + log_entry list \<times> render_video_message list" where
  "render_process self datestamp element pane =
     (let key = fst element;
          vals = snd element;
          gcs_input = path_join (in_base_path self) [key];
          gcs_output = path_join (out_base_path self) [key, ''annotated_video.mp4''];
          suffix = path_join key [datestamp, ''annotated_video.mp4''];
          cdn_output = path_join (cdn_base_path self) [cdn_upload_path self, suffix];
          cdn_relative = path_join (cdn_upload_path self) [suffix]
      in case vals of
           [] \<Rightarrow> Inl IndexError
         | v # _ \<Rightarrow>
             Inr ([Log_pane (is_last pane)],
                  [\<lparr>rv_print_session = key,
                    rv_metadata =
                      \<lparr>md_client_version = ev_client_version v,
                       md_print_session = ev_print_session v,
                       md_user_id = ev_user_id v,
                       md_octoprint_device_id = ev_octoprint_device_id v,
                       md_cloudiot_device_id = ev_cloudiot_device_id v,
                       md_window_start = None,
                       md_window_end = None\<rparr>,
                    rv_event_type = video_done,
                    rv_gcs_input = gcs_input,
                    rv_gcs_output = gcs_output,
                    rv_cdn_output = cdn_output,
                    rv_cdn_relative = cdn_relative,
                    rv_bucket = bucket self\<rparr>]))"

subsection \<open>MonitorHealthStateful\<close>

text \<open>
  \<open>FAILURES\<close> is a combining state cell with combiner \<open>sum\<close>: \<open>read()\<close> is the sum of what
  was added (0 for a fresh cell) and \<open>add(1)\<close> adds 1. \<open>process\<close> takes the cell that the
  runner hands it as \<open>failures\<close> and returns the cell, the log (which holds the value read)
  and what it yields.
\<close>

definition monitor_process :: "int \<Rightarrow> 'k \<times> 'v \<Rightarrow> int \<times> log_entry list \<times> ('k \<times> 'v) list" where
  "monitor_process failures element =
     (let key = fst element;
          vals = snd element;
          current_failures = failures;
          failures' = failures + 1
      in (failures', [Log_failures current_failures], [(key, vals)]))"

text \<open>
  The runner's state. Beam scopes the cell of a \<open>StateParam\<close> by key and window: the cell
  handed to a call is the one of the element's key and of the window of the firing, and
  it is 0 before the first firing for that key in that window. A firing runs \<open>process\<close>
  on that cell and stores the cell back.
\<close>

type_synonym 'k state_store = "'k \<times> window \<Rightarrow> int"

definition fire ::
  "'k state_store \<Rightarrow> 'k \<times> 'v \<Rightarrow> window \<Rightarrow> 'k state_store \<times> log_entry list \<times> ('k \<times> 'v) list" where
  "fire store element w =
     (let r = monitor_process (store (fst element, w)) element
      in (store ((fst element, w) := fst r), snd r))"

fun fire_all :: "'k state_store \<Rightarrow> (('k \<times> 'v) \<times> window) list \<Rightarrow> 'k state_store" where
  "fire_all store [] = store"
| "fire_all store (firing # firings) =
     fire_all (fst (fire store (fst firing) (snd firing))) firings"

fun fire_logs :: "'k state_store \<Rightarrow> (('k \<times> 'v) \<times> window) list \<Rightarrow> log_entry list" where
  "fire_logs store [] = []"
| "fire_logs store (firing # firings) =
     fst (snd (fire store (fst firing) (snd firing))) @
     fire_logs (fst (fire store (fst firing) (snd firing))) firings"

definition fresh_store :: "'k state_store" where
  "fresh_store = (\<lambda>c. 0)"

section \<open>The contract's words\<close>

text \<open>
  The per-timestamp value of the specification: the largest health score of the records
  with positive weight at the timestamp (0 if none) plus the smallest health score of
  those with negative weight (0 if none); and the trajectory: the running sum of these
  values over the distinct timestamps, ascending.
\<close>

definition positive_at :: "windowed_health_record list \<Rightarrow> real \<Rightarrow> real" where
  "positive_at rs t =
     (let vs = map hr_health_score (filter (\<lambda>r. hr_health_weight r > 0 \<and> hr_ts r = t) rs)
      in if vs = [] then 0 else Max (set vs))"

definition negative_at :: "windowed_health_record list \<Rightarrow> real \<Rightarrow> real" where
  "negative_at rs t =
     (let vs = map hr_health_score (filter (\<lambda>r. hr_health_weight r < 0 \<and> hr_ts r = t) rs)
      in if vs = [] then 0 else Min (set vs))"

definition per_timestamp_value :: "windowed_health_record list \<Rightarrow> real \<Rightarrow> real" where
  "per_timestamp_value rs t = positive_at rs t + negative_at rs t"

definition distinct_timestamps :: "windowed_health_record list \<Rightarrow> real list" where
  "distinct_timestamps rs = sort (remdups (map hr_ts rs))"

definition spec_trajectory :: "windowed_health_record list \<Rightarrow> real list" where
  "spec_trajectory rs = running_sum 0 (map (per_timestamp_value rs) (distinct_timestamps rs))"

text \<open>
  What a trend holds of the record set as a whole: the key, the trajectory, the fitted
  polynomial, and the rows of the per-record arrays as a multiset, that is without their
  order. The view of a result keeps the exception or the log, and this of every trend.
\<close>

type_synonym trend_aggregate =
  "string \<times> real list \<times> real list \<times> real list \<times> real list \<times> int \<times>
   (real \<times> real \<times> int \<times> real) multiset"

definition trend_aggregate :: "nested_windowed_health_trend \<Rightarrow> trend_aggregate" where
  "trend_aggregate t =
     (tr_print_session t, tr_cumsum t, poly_coef t, poly_domain t, poly_roots t, poly_degree t,
      mset (zip (tr_health_score t)
             (zip (tr_health_weight t) (zip (tr_detection_class t) (tr_detection_score t)))))"

definition aggregate_view ::
  "py_error + log_entry list \<times> (string \<times> nested_windowed_health_trend) list \<Rightarrow>
     py_error + log_entry list \<times> (string \<times> trend_aggregate) list" where
  "aggregate_view r =
     (case r of
        Inl e \<Rightarrow> Inl e
      | Inr (l, out) \<Rightarrow> Inr (l, map (\<lambda>(k, t). (k, trend_aggregate t)) out))"

text \<open>
  A stand-in for numpy's fit, to run the transforms at concrete inputs; every theorem
  below that is not about a concrete input is stated for an arbitrary fit. It raises
  ValueError on an empty x and on a negative degree, and the polynomial it returns has
  the degree asked for.
\<close>

definition flat_fit :: polyfit where
  "flat_fit x y deg =
     (if x = [] \<or> deg < 0 then Inl ValueError
      else Inr \<lparr>np_coef = replicate (nat deg + 1) 0,
                np_domain = [hd x, last x],
                np_roots = [],
                np_degree = deg\<rparr>)"

section \<open>Concrete inputs\<close>

text \<open>Values at which the theorems below are run.\<close>

definition sample_metadata :: metadata where
  "sample_metadata =
     \<lparr>md_client_version = ''0.5.0'', md_print_session = ''session'', md_user_id = 1,
      md_octoprint_device_id = 2, md_cloudiot_device_id = 3,
      md_window_start = Some 0, md_window_end = Some 300\<rparr>"

text \<open>A health record as the exploder builds it: the health score is weight times score.\<close>

definition health_record :: "real \<Rightarrow> int \<Rightarrow> real \<Rightarrow> real \<Rightarrow> windowed_health_record" where
  "health_record t cls w score =
     \<lparr>hr_metadata = sample_metadata, hr_ts = t, hr_print_session = ''session'',
      hr_detection_score = score, hr_detection_class = cls, hr_health_weight = w,
      hr_health_score = w * score\<rparr>"

definition sample_window :: window where
  "sample_window = \<lparr>win_start = 0, win_end = 300\<rparr>"

definition sample_event :: nested_telemetry_event where
  "sample_event =
     \<lparr>ev_client_version = ''0.5.0'', ev_print_session = ''session'', ev_user_id = 1,
      ev_octoprint_device_id = 2, ev_cloudiot_device_id = 3, ev_ts = 10,
      ev_detection_scores = [0.9, 0.8], ev_detection_classes = [4, 3],
      ev_num_detections = 2\<rparr>"

definition sample_render :: create_video_render_message where
  "sample_render =
     \<lparr>in_base_path = ''gs://bucket/in'', out_base_path = ''gs://bucket/out'',
      cdn_base_path = ''gs://cdn'', cdn_upload_path = ''uploads'', bucket = ''bucket''\<rparr>"

text \<open>
  A sort to run the aggregator with: rows of equal \<open>ts\<close> keep their order of arrival.
\<close>

definition stable_sort_values :: sort_values where
  "stable_sort_values = sort_key hr_ts"

definition next_window :: window where
  "next_window = \<lparr>win_start = 30, win_end = 330\<rparr>"

section \<open>Theorems: the overlap of a box with the area of interest\<close>

lemma percent_intersection_disjoint:
  "disjoint_boxes box aoi \<Longrightarrow> percent_intersection box aoi = Inr 0"
  by (auto simp: percent_intersection_def disjoint_boxes_def Let_def)

lemma intersection_area_bounds:
  "\<not> disjoint_boxes box aoi \<Longrightarrow>
     0 \<le> intersection_area box aoi \<and> intersection_area box aoi \<le> box_area box"
  unfolding disjoint_boxes_def intersection_area_def box_area_def
  by (auto intro!: mult_mono mult_nonneg_nonneg simp: not_less)

lemma percent_intersection_ratio:
  "\<not> disjoint_boxes box aoi \<Longrightarrow> box_area box \<noteq> 0 \<Longrightarrow>
     percent_intersection box aoi = Inr (intersection_area box aoi / box_area box)"
  by (auto simp: percent_intersection_def disjoint_boxes_def Let_def)

lemma percent_intersection_no_area:
  "\<not> disjoint_boxes box aoi \<Longrightarrow> box_area box = 0 \<Longrightarrow>
     percent_intersection box aoi = Inl ZeroDivisionError"
  by (auto simp: percent_intersection_def disjoint_boxes_def Let_def)

lemma contained_intersection:
  "contained_in box aoi \<Longrightarrow> intersection_area box aoi = box_area box \<and> \<not> disjoint_boxes box aoi"
  by (auto simp: contained_in_def intersection_area_def box_area_def disjoint_boxes_def
      min_def max_def)

text \<open>
  For one box: unless the box has no area and touches the area of interest, the loop body
  returns a number between 0 and 1, namely 0 for a disjoint box, 1 for a contained box,
  and the intersection area over the box's own area otherwise.
\<close>

lemma percent_intersection_contract:
  assumes "disjoint_boxes box aoi \<or> box_area box \<noteq> 0"
  shows "\<exists>v. percent_intersection box aoi = Inr v \<and> 0 \<le> v \<and> v \<le> 1 \<and>
           (disjoint_boxes box aoi \<longrightarrow> v = 0) \<and>
           (contained_in box aoi \<longrightarrow> v = 1) \<and>
           (\<not> disjoint_boxes box aoi \<longrightarrow> v = intersection_area box aoi / box_area box)"
proof (cases "disjoint_boxes box aoi")
  case True
  then show ?thesis
    using contained_intersection [of box aoi] by (auto simp: percent_intersection_disjoint)
next
  case False
  with assms have nz: "box_area box \<noteq> 0" by simp
  from False have b: "0 \<le> intersection_area box aoi" "intersection_area box aoi \<le> box_area box"
    using intersection_area_bounds by blast+
  with nz have pos: "0 < box_area box" by simp
  have "intersection_area box aoi / box_area box \<le> 1"
    using b pos by simp
  moreover have "0 \<le> intersection_area box aoi / box_area box"
    using b pos by simp
  moreover have "contained_in box aoi \<longrightarrow> intersection_area box aoi / box_area box = 1"
    using contained_intersection [of box aoi] nz by auto
  moreover have "percent_intersection box aoi = Inr (intersection_area box aoi / box_area box)"
    using False nz by (rule percent_intersection_ratio)
  ultimately show ?thesis
    using False by blast
qed

lemma calc_percent_intersection_Inr:
  "calc_percent_intersection boxes aoi = Inr aou \<longleftrightarrow>
     list_all2 (\<lambda>box v. percent_intersection box aoi = Inr v) boxes aou"
proof (induction boxes arbitrary: aou)
  case Nil
  then show ?case by auto
next
  case (Cons box boxes)
  show ?case
    by (cases aou) (auto split: sum.splits simp: Cons.IH [symmetric])
qed

text \<open>
  The contract of the overlap where the quotient is defined. For every list of detection
  boxes each of which is disjoint from the area of interest or has an area other than 0,
  \<open>calc_percent_intersection\<close> returns one value for each box, and each value lies in
  [0, 1], is 0 when the box is disjoint from the area of interest, is 1 when the box is
  contained in it, and is the intersection area divided by the box's own area whenever
  the box is not disjoint.
\<close>

theorem calc_percent_intersection_contract:
  assumes "\<forall>box \<in> set boxes. disjoint_boxes box aoi \<or> box_area box \<noteq> 0"
  shows "\<exists>aou. calc_percent_intersection boxes aoi = Inr aou \<and>
           length aou = length boxes \<and>
           (\<forall>i < length boxes.
              0 \<le> aou ! i \<and> aou ! i \<le> 1 \<and>
              (disjoint_boxes (boxes ! i) aoi \<longrightarrow> aou ! i = 0) \<and>
              (contained_in (boxes ! i) aoi \<longrightarrow> aou ! i = 1) \<and>
              (\<not> disjoint_boxes (boxes ! i) aoi \<longrightarrow>
                 aou ! i =
                   intersection_area (boxes ! i) aoi / box_area (boxes ! i)))"
proof -
  let ?P = "\<lambda>box v. percent_intersection box aoi = Inr v \<and> 0 \<le> v \<and> v \<le> 1 \<and>
           (disjoint_boxes box aoi \<longrightarrow> v = 0) \<and>
           (contained_in box aoi \<longrightarrow> v = 1) \<and>
           (\<not> disjoint_boxes box aoi \<longrightarrow> v = intersection_area box aoi / box_area box)"
  have "\<forall>box \<in> set boxes. \<exists>v. ?P box v"
    using assms percent_intersection_contract by blast
  then obtain f where f: "\<forall>box \<in> set boxes. ?P box (f box)"
    by metis
  let ?aou = "map f boxes"
  have "list_all2 (\<lambda>box v. percent_intersection box aoi = Inr v) boxes ?aou"
    using f by (simp add: list_all2_conv_all_nth)
  then have "calc_percent_intersection boxes aoi = Inr ?aou"
    by (simp add: calc_percent_intersection_Inr)
  moreover have "\<forall>i < length boxes. ?P (boxes ! i) (?aou ! i)"
    using f by simp
  ultimately show ?thesis
    by (intro exI [of _ ?aou]) simp
qed

theorem calc_percent_intersection_contract_example:
  "calc_percent_intersection
     [Coords 0.1 0.1 0.2 0.2, Coords 2 2 3 3, Coords 0.5 0 1.5 1] (Coords 0 0 1 1) =
   Inr [1, 0, 0.5]"
proof -
  let ?boxes = "[Coords 0.1 0.1 0.2 0.2, Coords 2 2 3 3, Coords 0.5 0 1.5 1]"
  let ?aoi = "Coords 0 0 1 1"
  have h: "\<forall>box \<in> set ?boxes. disjoint_boxes box ?aoi \<or> box_area box \<noteq> 0"
    by (simp add: box_area_def)
  from calc_percent_intersection_contract [OF h] obtain aou where
    r: "calc_percent_intersection ?boxes ?aoi = Inr aou" and
    len: "length aou = 3" and
    p: "\<forall>i < 3. 
              (disjoint_boxes (?boxes ! i) ?aoi \<longrightarrow> aou ! i = 0) \<and>
              (contained_in (?boxes ! i) ?aoi \<longrightarrow> aou ! i = 1) \<and>
              (\<not> disjoint_boxes (?boxes ! i) ?aoi \<longrightarrow>
                 aou ! i = intersection_area (?boxes ! i) ?aoi / box_area (?boxes ! i))"
    by auto
  from p [rule_format, of 0] have a0: "aou ! 0 = 1"
    by (simp add: contained_in_def)
  from p [rule_format, of 1] have a1: "aou ! 1 = 0"
    by (simp add: disjoint_boxes_def)
  from p [rule_format, of 2] have a2: "aou ! 2 = 0.5"
    by (simp add: disjoint_boxes_def intersection_area_def box_area_def)
  from len obtain x y z where "aou = [x, y, z]"
    by (auto simp: length_Suc_conv numeral_3_eq_3)
  with a0 a1 a2 have "aou = [1, 0, 0.5]" by simp
  with r show ?thesis by simp
qed

text \<open>
  C3, at a box without area inside the area of interest (such as the all-zero box that
  pads a detector's output): the box is contained, so the contract asks for 1.0, a number
  between 0 and 1; the quotient 0 / 0 raises and no number is returned.
\<close>

theorem calc_percent_intersection_no_area_failing_input:
  "contained_in (Coords 0 0 0 0) (Coords 0 0 1 1) \<and>
   \<not> disjoint_boxes (Coords 0 0 0 0) (Coords 0 0 1 1) \<and>
   calc_percent_intersection [Coords 0 0 0 0] (Coords 0 0 1 1) = Inl ZeroDivisionError"
  by (simp add: contained_in_def disjoint_boxes_def percent_intersection_def box_area_def)

section \<open>Theorems: the detection filter\<close>

lemma mask_index_Inr:
  "mask_index a bmask = Inr r \<longleftrightarrow>
     length a = length bmask \<and> r = map fst (filter snd (zip a bmask))"
  by (auto simp: mask_index_def)

lemma length_masked:
  "length a = length bmask \<Longrightarrow>
     int (length (map fst (filter snd (zip a bmask)))) = count_nonzero bmask"
  unfolding count_nonzero_def
  by (induction a bmask rule: list_induct2) auto

lemma zip_masked:
  "length a = length xs \<Longrightarrow>
     zip (map fst (filter snd (zip a (map P xs)))) (filter P xs) =
       filter (\<lambda>(y, x). P x) (zip a xs)"
  by (induction a xs rule: list_induct2) auto

lemma masked_self:
  "map fst (filter snd (zip xs (map P xs))) = filter P xs"
  by (induction xs) auto

lemma lookup_health_weights_Inr:
  "lookup_health_weights cat classes = Inr ws \<longleftrightarrow>
     list_all2 (\<lambda>i w. cat i = Some w) classes ws"
proof (induction classes arbitrary: ws)
  case Nil
  then show ?case by auto
next
  case (Cons i classes)
  show ?case
    by (cases ws) (auto split: option.splits sum.splits simp: Cons.IH [symmetric])
qed

lemma lookup_health_weights_total:
  "set classes \<subseteq> dom cat \<Longrightarrow> \<exists>ws. lookup_health_weights cat classes = Inr ws"
  by (induction classes) (auto split: option.splits sum.splits)

lemma filter_box_annotations_Inr:
  assumes "filter_box_annotations cat element calibration ov thr = Inr out"
  shows "\<exists>bmask.
           ignored_mask (detection_scores element) (detection_boxes element) calibration ov thr =
             Inr bmask \<and>
           length (detection_boxes element) = length bmask \<and>
           length (detection_scores element) = length bmask \<and>
           length (detection_classes element) = length bmask \<and>
           num_detections out = count_nonzero bmask \<and>
           detection_boxes out = map fst (filter snd (zip (detection_boxes element) bmask)) \<and>
           detection_scores out = map fst (filter snd (zip (detection_scores element) bmask)) \<and>
           detection_classes out = map fst (filter snd (zip (detection_classes element) bmask)) \<and>
           list_all2 (\<lambda>i w. cat i = Some w) (detection_classes out) (health_weights out)"
  using assms unfolding filter_box_annotations_def
  by (auto split: sum.splits simp: mask_index_Inr lookup_health_weights_Inr)

lemma ignored_mask_calibrated:
  "ignored_mask scores boxes (Some c) ov thr \<noteq> Inr bmask"
  by (auto simp: ignored_mask_def split: sum.splits)

lemma filter_box_annotations_calibrated:
  "filter_box_annotations cat element (Some c) ov thr \<noteq> Inr out"
  using filter_box_annotations_Inr [of cat element "Some c" ov thr out]
  by (auto simp: ignored_mask_calibrated)

text \<open>
  Without a calibration the filter keeps exactly the detections whose score is above the
  threshold, in their order.
\<close>

lemma filter_box_annotations_uncalibrated:
  assumes "filter_box_annotations cat element None ov thr = Inr out"
  shows "detection_scores out = filter (\<lambda>s. s > thr) (detection_scores element)"
    and "zip (detection_boxes out) (detection_scores out) =
           filter (\<lambda>(b, s). s > thr) (zip (detection_boxes element) (detection_scores element))"
    and "zip (detection_classes out) (detection_scores out) =
           filter (\<lambda>(c, s). s > thr) (zip (detection_classes element) (detection_scores element))"
    and "\<forall>s \<in> set (detection_scores out). s > thr"
proof -
  from filter_box_annotations_Inr [OF assms] obtain bmask where
    m: "bmask = map (\<lambda>s. s > thr) (detection_scores element)" and
    lb: "length (detection_boxes element) = length bmask" and
    lc: "length (detection_classes element) = length bmask" and
    b: "detection_boxes out = map fst (filter snd (zip (detection_boxes element) bmask))" and
    s: "detection_scores out = map fst (filter snd (zip (detection_scores element) bmask))" and
    c: "detection_classes out = map fst (filter snd (zip (detection_classes element) bmask))"
    by (auto simp: ignored_mask_def)
  show s': "detection_scores out = filter (\<lambda>s. s > thr) (detection_scores element)"
    using s m by (simp add: masked_self)
  show "zip (detection_boxes out) (detection_scores out) =
           filter (\<lambda>(b, s). s > thr) (zip (detection_boxes element) (detection_scores element))"
    using lb m by (simp add: b s' zip_masked)
  show "zip (detection_classes out) (detection_scores out) =
           filter (\<lambda>(c, s). s > thr) (zip (detection_classes element) (detection_scores element))"
    using lc m by (simp add: c s' zip_masked)
  show "\<forall>s \<in> set (detection_scores out). s > thr"
    by (simp add: s')
qed


lemma filter_box_annotations_uncalibrated_total:
  assumes "length (detection_scores element) = length (detection_boxes element)"
    and "length (detection_classes element) = length (detection_boxes element)"
    and "set (detection_classes element) \<subseteq> dom cat"
  shows "\<exists>out. filter_box_annotations cat element None ov thr = Inr out"
proof -
  let ?m = "map (\<lambda>s. s > thr) (detection_scores element)"
  have "set (map fst (filter snd (zip (detection_classes element) ?m))) \<subseteq> dom cat"
    using assms(3) by (auto dest: set_zip_leftD)
  then obtain ws where
    "lookup_health_weights cat (map fst (filter snd (zip (detection_classes element) ?m))) =
       Inr ws"
    using lookup_health_weights_total by blast
  then show ?thesis
    using assms(1,2)
    by (simp add: filter_box_annotations_def ignored_mask_def mask_index_def)
qed

text \<open>
  C1, the calibrated branch at a concrete input: one detection with score 0.9, above the
  default threshold 0.66, whose box lies inside the calibrated area (overlap 1, at least
  the default 0.75). The contract keeps it; the function raises TypeError and returns no
  detection set.
\<close>

theorem filter_box_annotations_calibrated_failing_input:
  "0.9 > default_min_score_threshold \<and>
   calc_percent_intersection [Coords 0.1 0.1 0.2 0.2] (Coords 0 0 1 1) = Inr [1] \<and>
   1 \<ge> default_min_calibration_area_overlap \<and>
   filter_box_annotations [4 \<mapsto> 1]
     \<lparr>num_detections = 1, detection_scores = [0.9],
      detection_boxes = [Coords 0.1 0.1 0.2 0.2], detection_classes = [4],
      health_weights = [1]\<rparr>
     (Some \<lparr>coordinates = Coords 0 0 1 1\<rparr>)
     default_min_calibration_area_overlap default_min_score_threshold = Inl TypeError"
  by (simp add: default_min_score_threshold_def default_min_calibration_area_overlap_def
      filter_box_annotations_def ignored_mask_def percent_intersection_def box_area_def
      intersection_area_def)

text \<open>
  C10. For every input whose score, box and class sequences have equal length: an output
  of the filter has \<open>num_detections\<close> equal to the length of each of its four arrays; and
  without a calibration, when every class is a key of \<open>CATEGORY_INDEX\<close>, the filter does
  return an output, whose \<open>num_detections\<close> is the number of scores above the threshold.
\<close>

theorem filter_box_annotations_consistent:
  assumes "length (detection_scores element) = length (detection_boxes element)"
    and "length (detection_classes element) = length (detection_boxes element)"
  shows "(filter_box_annotations cat element calibration ov thr = Inr out \<longrightarrow>
            int (length (detection_scores out)) = num_detections out \<and>
            int (length (detection_boxes out)) = num_detections out \<and>
            int (length (detection_classes out)) = num_detections out \<and>
            int (length (health_weights out)) = num_detections out) \<and>
         (calibration = None \<and> set (detection_classes element) \<subseteq> dom cat \<longrightarrow>
            (\<exists>out'. filter_box_annotations cat element calibration ov thr = Inr out' \<and>
               num_detections out' =
                 int (length (filter (\<lambda>s. s > thr) (detection_scores element)))))"
proof (intro conjI impI)
  assume r: "filter_box_annotations cat element calibration ov thr = Inr out"
  from filter_box_annotations_Inr [OF r] obtain bmask where
    lb: "length (detection_boxes element) = length bmask" and
    ls: "length (detection_scores element) = length bmask" and
    lc: "length (detection_classes element) = length bmask" and
    n: "num_detections out = count_nonzero bmask" and
    b: "detection_boxes out = map fst (filter snd (zip (detection_boxes element) bmask))" and
    s: "detection_scores out = map fst (filter snd (zip (detection_scores element) bmask))" and
    c: "detection_classes out = map fst (filter snd (zip (detection_classes element) bmask))" and
    w: "list_all2 (\<lambda>i w. cat i = Some w) (detection_classes out) (health_weights out)"
    by blast
  show "int (length (detection_scores out)) = num_detections out"
    unfolding s n using ls by (rule length_masked)
  show "int (length (detection_boxes out)) = num_detections out"
    unfolding b n using lb by (rule length_masked)
  show c': "int (length (detection_classes out)) = num_detections out"
    unfolding c n using lc by (rule length_masked)
  show "int (length (health_weights out)) = num_detections out"
    using w c' by (simp add: list_all2_lengthD [symmetric])
next
  assume h: "calibration = None \<and> set (detection_classes element) \<subseteq> dom cat"
  with assms obtain out' where
    r: "filter_box_annotations cat element None ov thr = Inr out'"
    using filter_box_annotations_uncalibrated_total by blast
  from filter_box_annotations_Inr [OF r] obtain bmask where
    ls: "length (detection_scores element) = length bmask" and
    n: "num_detections out' = count_nonzero bmask" and
    s: "detection_scores out' = map fst (filter snd (zip (detection_scores element) bmask))"
    by blast
  have "num_detections out' = int (length (detection_scores out'))"
    unfolding s n using ls by (rule length_masked [symmetric])
  also have "detection_scores out' = filter (\<lambda>s. s > thr) (detection_scores element)"
    using r by (rule filter_box_annotations_uncalibrated(1))
  finally show "\<exists>out'. filter_box_annotations cat element calibration ov thr = Inr out' \<and>
               num_detections out' =
                 int (length (filter (\<lambda>s. s > thr) (detection_scores element)))"
    using r h by blast
qed

theorem filter_box_annotations_consistent_witness:
  "\<exists>out. filter_box_annotations [4 \<mapsto> 1, 3 \<mapsto> - 1]
       \<lparr>num_detections = 3, detection_scores = [0.9, 0.8, 0.3],
        detection_boxes = [Coords 0.1 0.1 0.2 0.2, Coords 0.2 0.2 0.4 0.4, Coords 0 0 1 1],
        detection_classes = [4, 3, 4], health_weights = [1, - 1, 1]\<rparr>
       None default_min_calibration_area_overlap default_min_score_threshold = Inr out \<and>
     num_detections out = 2 \<and>
     length (detection_scores out) = 2 \<and> length (detection_boxes out) = 2 \<and>
     length (detection_classes out) = 2 \<and> length (health_weights out) = 2"
proof -
  let ?el = "\<lparr>num_detections = 3, detection_scores = [0.9, 0.8, 0.3],
        detection_boxes = [Coords 0.1 0.1 0.2 0.2, Coords 0.2 0.2 0.4 0.4, Coords 0 0 1 1],
        detection_classes = [4, 3, 4], health_weights = [1, - 1, 1]\<rparr>"
  let ?cat = "[4 \<mapsto> 1, 3 \<mapsto> - 1] :: category_index"
  have l1: "length (detection_scores ?el) = length (detection_boxes ?el)" by simp
  have l2: "length (detection_classes ?el) = length (detection_boxes ?el)" by simp
  have d: "set (detection_classes ?el) \<subseteq> dom ?cat" by simp
  note t = filter_box_annotations_consistent [OF l1 l2, of ?cat None
      default_min_calibration_area_overlap default_min_score_threshold]
  from t [THEN conjunct2] d obtain out where
    r: "filter_box_annotations ?cat ?el None default_min_calibration_area_overlap
          default_min_score_threshold = Inr out" and
    n: "num_detections out = 2"
    by (auto simp: default_min_score_threshold_def)
  from t [of out, THEN conjunct1] r n show ?thesis
    by auto
qed

section \<open>Theorems: the stateful session monitor\<close>

lemma fire_counter:
  "fst (fire store (k, vs) w) = store ((k, w) := store (k, w) + 1)"
  by (simp add: fire_def monitor_process_def)

lemma fire_yields:
  "snd (fire store (k, vs) w) = ([Log_failures (store (k, w))], [(k, vs)])"
  by (simp add: fire_def monitor_process_def)

lemma fire_all_count:
  "fire_all store firings c =
     store c + int (length (filter (\<lambda>f. (fst (fst f), snd f) = c) firings))"
proof (induction firings arbitrary: store)
  case Nil
  then show ?case by simp
next
  case (Cons f firings)
  obtain k vs w where f: "f = ((k, vs), w)" by (metis prod.collapse)
  show ?case
    by (simp add: Cons.IH f fire_counter)
qed

lemma fire_all_append:
  "fire_all store (fs @ fs') = fire_all (fire_all store fs) fs'"
  by (induction fs arbitrary: store) auto

text \<open>
  C8 as stated fails for a key whose firings fall into more than one window: the counter
  is the cell of the key and the window, so the firing for key \<open>a\<close> in a second window
  reads 0 although a firing for \<open>a\<close> was observed before it, and the third firing, back
  in the first window, reads 1. One counter for each key would be read as 0, 1, 2.
\<close>

theorem monitor_counter_windows_counterexample:
  "fire_logs fresh_store
     [((''a'', [1::nat]), sample_window), ((''a'', [2]), next_window),
      ((''a'', [3]), sample_window)] =
   [Log_failures 0, Log_failures 0, Log_failures 1]"
  by (simp add: fire_def monitor_process_def fresh_store_def sample_window_def
      next_window_def)

text \<open>
  C8 (amended). A firing for key \<open>k\<close> in window \<open>w\<close> reads the counter of \<open>k\<close> and \<open>w\<close>, adds
  1 and stores it; it leaves every other counter as it was, those of other keys and those
  of other windows of \<open>k\<close>, and passes the element through. Over any sequence of firings
  the counter of a key and window is the number of firings for that key in that window so
  far, so it never decreases as more firings arrive.
\<close>

theorem monitor_counter:
  "fst (fire store (k, vs) w) (k, w) = store (k, w) + 1 \<and>
   (\<forall>c. c \<noteq> (k, w) \<longrightarrow> fst (fire store (k, vs) w) c = store c) \<and>
   snd (fire store (k, vs) w) = ([Log_failures (store (k, w))], [(k, vs)]) \<and>
   fire_all store firings (k, w) =
     store (k, w) + int (length (filter (\<lambda>f. (fst (fst f), snd f) = (k, w)) firings)) \<and>
   fire_all store firings c' \<le> fire_all store (firings @ later) c'"
proof -
  have "fire_all store firings c' \<le> fire_all store (firings @ later) c'"
    by (simp add: fire_all_append fire_all_count [of "fire_all store firings"])
  then show ?thesis
    by (simp add: fire_counter fire_yields fire_all_count [of store])
qed

theorem monitor_counter_witness:
  "fst (fire fresh_store (''a'', [1::nat]) sample_window) (''a'', sample_window) = 1 \<and>
   fst (fire fresh_store (''a'', [1::nat]) sample_window) (''b'', sample_window) = 0 \<and>
   fst (fire fresh_store (''a'', [1::nat]) sample_window) (''a'', next_window) = 0 \<and>
   fire_all fresh_store
     [((''a'', [1::nat]), sample_window), ((''b'', [2]), sample_window),
      ((''a'', [3]), next_window), ((''a'', [4]), sample_window)] (''a'', sample_window) = 2"
proof -
  let ?firings = "[((''a'', [1::nat]), sample_window), ((''b'', [2]), sample_window),
      ((''a'', [3]), next_window), ((''a'', [4]), sample_window)]"
  have nw: "next_window \<noteq> sample_window"
    by (simp add: next_window_def sample_window_def)
  note t = monitor_counter [of fresh_store "''a''" "[1::nat]" sample_window ?firings _ "[]"]
  from t have a: "fst (fire fresh_store (''a'', [1::nat]) sample_window) (''a'', sample_window) = 1"
    by (simp add: fresh_store_def)
  from t have b: "fst (fire fresh_store (''a'', [1::nat]) sample_window) (''b'', sample_window) = 0"
    by (simp add: fresh_store_def)
  from t nw have c: "fst (fire fresh_store (''a'', [1::nat]) sample_window) (''a'', next_window) = 0"
    by (simp add: fresh_store_def)
  from t nw have d: "fire_all fresh_store ?firings (''a'', sample_window) = 2"
    by (simp add: fresh_store_def)
  from a b c d show ?thesis by simp
qed

section \<open>Theorems: the render trigger\<close>

text \<open>
  C5, at a pane that is not the last one: the contract asks for no message, the transform
  yields one all the same.
\<close>

theorem render_process_not_last_failing_input:
  "emitted (render_process sample_render ''2021/03/01'' (''session'', [sample_event])
      \<lparr>is_last = False\<rparr>) \<noteq> [] \<and>
   length (emitted (render_process sample_render ''2021/03/01'' (''session'', [sample_event])
      \<lparr>is_last = False\<rparr>)) = 1"
  by (simp add: render_process_def emitted_def Let_def)

text \<open>
  What the transform does: every invocation on a non-empty list of events yields exactly
  one message, for the element's key, and the same message whether the pane is the last
  one or not; the pane is only logged.
\<close>

theorem render_process_always_one:
  assumes "vals \<noteq> []"
  shows "\<exists>msg. render_process self datestamp (key, vals) pane =
             Inr ([Log_pane (is_last pane)], [msg]) \<and>
           rv_print_session msg = key \<and>
           render_process self datestamp (key, vals) (pane\<lparr>is_last := \<not> is_last pane\<rparr>) =
             Inr ([Log_pane (\<not> is_last pane)], [msg])"
  using assms by (cases vals) (simp_all add: render_process_def Let_def)

theorem render_process_always_one_example:
  "\<exists>msg. render_process sample_render ''2021/03/01'' (''session'', [sample_event])
            \<lparr>is_last = True\<rparr> = Inr ([Log_pane True], [msg]) \<and>
         render_process sample_render ''2021/03/01'' (''session'', [sample_event])
            \<lparr>is_last = False\<rparr> = Inr ([Log_pane False], [msg])"
proof -
  have h: "[sample_event] \<noteq> []" by simp
  from render_process_always_one [OF h, of sample_render "''2021/03/01''" "''session''"
      "\<lparr>is_last = True\<rparr>"]
  show ?thesis by auto
qed

section \<open>Theorems: the session trend aggregator\<close>

subsection \<open>The series of the source and the contract's words\<close>

lemma map_of_tabulate:
  "map_of (map (\<lambda>k. (k, f k)) ks) k = (if k \<in> set ks then Some (f k) else None)"
  by (induction ks) auto

lemma sort_remdups_cong:
  fixes xs ys :: "real list"
  assumes "set xs = set ys"
  shows "sort (remdups xs) = sort (remdups ys)"
proof (rule sorted_distinct_set_unique)
  show "set (sort (remdups xs)) = set (sort (remdups ys))"
    using assms by simp
qed simp_all

lemma length_running_sum: "length (running_sum acc xs) = length xs"
  by (induction xs arbitrary: acc) auto

lemma groupby_ts_index:
  "map fst (groupby_ts agg df) = sort (remdups (map hr_ts df))"
  by (simp add: groupby_ts_def comp_def)

lemma series_get_groupby_ts:
  "series_get (groupby_ts agg df) t =
     (if t \<in> hr_ts ` set df
      then agg (set (map hr_health_score (filter (\<lambda>r. hr_ts r = t) df))) else 0)"
  by (simp add: series_get_def groupby_ts_def map_of_tabulate)

lemma series_get_positive:
  "series_get (groupby_ts Max (filter (\<lambda>r. hr_health_weight r > 0) df)) t = positive_at df t"
proof -
  have "t \<in> hr_ts ` set (filter (\<lambda>r. hr_health_weight r > 0) df) \<longleftrightarrow>
        filter (\<lambda>r. hr_health_weight r > 0 \<and> hr_ts r = t) df \<noteq> []"
    by (auto simp: filter_empty_conv)
  then show ?thesis
    by (simp add: series_get_groupby_ts positive_at_def Let_def del: set_filter)
qed

lemma series_get_negative:
  "series_get (groupby_ts Min (filter (\<lambda>r. hr_health_weight r < 0) df)) t = negative_at df t"
proof -
  have "t \<in> hr_ts ` set (filter (\<lambda>r. hr_health_weight r < 0) df) \<longleftrightarrow>
        filter (\<lambda>r. hr_health_weight r < 0 \<and> hr_ts r = t) df \<noteq> []"
    by (auto simp: filter_empty_conv)
  then show ?thesis
    by (simp add: series_get_groupby_ts negative_at_def Let_def del: set_filter)
qed

lemma series_add_index:
  "sort (remdups (map fst (groupby_ts Max (filter (\<lambda>r. hr_health_weight r > 0) df)) @
                  map fst (groupby_ts Min (filter (\<lambda>r. hr_health_weight r < 0) df)))) =
   distinct_timestamps (filter (\<lambda>r. hr_health_weight r \<noteq> 0) df)"
  unfolding distinct_timestamps_def groupby_ts_index
  by (rule sort_remdups_cong) (force simp: linorder_neq_iff)

text \<open>
  The series of the source equals the contract's words taken over the timestamps of the
  records whose weight is not 0.
\<close>

lemma xy_series_eq:
  "xy_series df =
     (let index = distinct_timestamps (filter (\<lambda>r. hr_health_weight r \<noteq> 0) df)
      in zip index (running_sum 0 (map (per_timestamp_value df) index)))"
proof -
  have "per_timestamp_value df = (\<lambda>t. positive_at df t + negative_at df t)"
    by (rule ext) (simp add: per_timestamp_value_def)
  then show ?thesis
    by (simp add: xy_series_def series_cumsum_def series_add_def series_add_index
        series_get_positive series_get_negative comp_def Let_def)
qed

lemma xy_series_values:
  "map snd (xy_series df) =
     running_sum 0 (map (per_timestamp_value df)
       (distinct_timestamps (filter (\<lambda>r. hr_health_weight r \<noteq> 0) df)))"
  by (simp add: xy_series_eq Let_def length_running_sum)

lemma xy_series_index:
  "map fst (xy_series df) = distinct_timestamps (filter (\<lambda>r. hr_health_weight r \<noteq> 0) df)"
  by (simp add: xy_series_eq Let_def length_running_sum)

text \<open>The words depend on the set of records only, not on their order or multiplicity.\<close>

lemma per_timestamp_value_cong:
  assumes "set rs = set rs'"
  shows "per_timestamp_value rs t = per_timestamp_value rs' t"
proof -
  have e: "\<And>P. (filter P rs = []) = (filter P rs' = [])"
    using assms by (simp add: filter_empty_conv)
  have s: "\<And>P. hr_health_score ` set (filter P rs) = hr_health_score ` set (filter P rs')"
    using assms by simp
  show ?thesis
    unfolding per_timestamp_value_def positive_at_def negative_at_def Let_def
    by (simp add: e s del: set_filter)
qed

lemma distinct_timestamps_cong:
  "set rs = set rs' \<Longrightarrow> distinct_timestamps (filter P rs) = distinct_timestamps (filter P rs')"
  unfolding distinct_timestamps_def by (rule sort_remdups_cong) simp

lemma xy_series_cong:
  assumes "set rs = set rs'"
  shows "xy_series rs = xy_series rs'"
  using per_timestamp_value_cong [OF assms] distinct_timestamps_cong [OF assms]
  by (simp add: xy_series_eq Let_def cong: map_cong)


subsection \<open>The sorted frame\<close>

lemma stable_sort_values_sorted_by_ts:
  "sorted_by_ts stable_sort_values rs"
  by (simp add: sorted_by_ts_def stable_sort_values_def)

lemma sorted_by_ts_set:
  "sorted_by_ts sort_values rs \<Longrightarrow> set (sort_values rs) = set rs"
  unfolding sorted_by_ts_def by (auto dest: mset_eq_setD)

lemma sorted_by_ts_length:
  "sorted_by_ts sort_values rs \<Longrightarrow> length (sort_values rs) = length rs"
  unfolding sorted_by_ts_def by (auto dest: mset_eq_length)

lemma sorted_by_ts_xy_series:
  "sorted_by_ts sort_values rs \<Longrightarrow> xy_series (sort_values rs) = xy_series rs"
  by (rule xy_series_cong) (rule sorted_by_ts_set)

subsection \<open>The gate and the fit\<close>

lemma sort_process_below_warmup:
  "sorted_by_ts sort_values records \<Longrightarrow> records \<noteq> [] \<Longrightarrow>
     int (length records) < warmup self \<Longrightarrow>
     sort_process self fit sort_values (key, records) w = Inr ([], [])"
  by (simp add: sort_process_def sorted_by_ts_length)

lemma sort_process_empty:
  "sort_process self fit sort_values (key, []) w = Inl KeyError"
  by (simp add: sort_process_def)

lemma sort_process_emits:
  assumes "sorted_by_ts sort_values records"
    and "emitted (sort_process self fit sort_values (key, records) w) \<noteq> []"
  shows "records \<noteq> [] \<and> warmup self \<le> int (length records) \<and>
         (\<exists>trend. fit (map fst (xy_series records)) (map snd (xy_series records))
                      (polyfit_degree self) = Inr trend \<and>
            sort_process self fit sort_values (key, records) w =
              Inr ([Log_emitting (win_start w) (win_end w)],
                   [(key,
                     \<lparr>tr_print_session = key,
                      poly_coef = np_coef trend,
                      poly_domain = np_domain trend,
                      poly_roots = np_roots trend,
                      poly_degree = np_degree trend,
                      tr_cumsum = map snd (xy_series records),
                      tr_metadata = hr_metadata (hd (sort_values records)),
                      tr_health_score = map hr_health_score (sort_values records),
                      tr_health_weight = map hr_health_weight (sort_values records),
                      tr_detection_class = map hr_detection_class (sort_values records),
                      tr_detection_score = map hr_detection_score (sort_values records)\<rparr>)]))"
  using assms(2) sorted_by_ts_length [OF assms(1)] sorted_by_ts_xy_series [OF assms(1)]
  by (auto simp: sort_process_def emitted_def health_score_trend_polynomial_v1_def Let_def
      split: if_splits sum.splits)

text \<open>An exception of the fit that is no ValueError leaves \<open>process\<close>.\<close>

lemma sort_process_other_error_leaves:
  assumes "sorted_by_ts sort_values records"
    and "records \<noteq> []" and "warmup self \<le> int (length records)"
    and "fit (map fst (xy_series records)) (map snd (xy_series records)) (polyfit_degree self) =
           Inl e"
    and "e \<noteq> ValueError"
  shows "sort_process self fit sort_values (key, records) w = Inl e"
  using assms(2-5) sorted_by_ts_length [OF assms(1)] sorted_by_ts_xy_series [OF assms(1)]
  by (simp add: sort_process_def health_score_trend_polynomial_v1_def Let_def)

text \<open>
  C4. For every sort that returns the records in ascending order of \<open>ts\<close>: a record list
  shorter than the warm-up threshold emits no trend, and when it is not empty (the
  runner's grouping delivers no empty group) \<open>process\<close> returns normally with nothing
  logged; whenever a trend is emitted the record count is at least the warm-up threshold.
  The threshold is the constructor's argument, 3 by default.
\<close>

theorem warmup_gate:
  assumes "sorted_by_ts sort_values records"
  shows "(int (length records) < warmup self \<longrightarrow>
            emitted (sort_process self fit sort_values (key, records) w) = [] \<and>
            (records \<noteq> [] \<longrightarrow>
               sort_process self fit sort_values (key, records) w = Inr ([], []))) \<and>
         (emitted (sort_process self fit sort_values (key, records) w) \<noteq> [] \<longrightarrow>
            warmup self \<le> int (length records)) \<and>
         warmup (SortWindowedHealthDataframe_init default_warmup d) = 3"
proof -
  have "emitted (sort_process self fit sort_values (key, records) w) \<noteq> [] \<longrightarrow>
      warmup self \<le> int (length records)"
    using sort_process_emits [OF assms] by blast
  moreover have "int (length records) < warmup self \<longrightarrow>
      emitted (sort_process self fit sort_values (key, records) w) = []"
    using sort_process_emits [OF assms, of self fit key w] by fastforce
  ultimately show ?thesis
    using assms
    by (simp add: sort_process_below_warmup SortWindowedHealthDataframe_init_def
        default_warmup_def)
qed

theorem warmup_gate_witness:
  "sort_process (SortWindowedHealthDataframe_init default_warmup default_polyfit_degree)
     flat_fit stable_sort_values
     (''session'', [health_record 1 4 1 0.9, health_record 2 3 (- 1) 0.8])
     sample_window = Inr ([], [])"
proof -
  let ?self = "SortWindowedHealthDataframe_init default_warmup default_polyfit_degree"
  let ?records = "[health_record 1 4 1 0.9, health_record 2 3 (- 1) 0.8]"
  have s: "sorted_by_ts stable_sort_values ?records"
    by (rule stable_sort_values_sorted_by_ts)
  have h: "int (length ?records) < warmup ?self"
    by (simp add: SortWindowedHealthDataframe_init_def default_warmup_def)
  have ne: "?records \<noteq> []" by simp
  from warmup_gate [OF s, of ?self flat_fit "''session''" sample_window] h ne
  show ?thesis by blast
qed

text \<open>The constructor drops its \<open>polyfit_degree\<close> argument.\<close>

lemma init_ignores_polyfit_degree:
  "SortWindowedHealthDataframe_init warmup_arg d =
     SortWindowedHealthDataframe_init warmup_arg default_polyfit_degree"
  by (simp add: SortWindowedHealthDataframe_init_def)

text \<open>
  C6, at degree 2: the instance built with \<open>polyfit_degree=2\<close> holds degree 1, asks the fit
  for degree 1, and the trend it emits carries degree 1 and two coefficients.
\<close>

theorem polyfit_degree_failing_input:
  "polyfit_degree (SortWindowedHealthDataframe_init default_warmup 2) = 1 \<and>
   map (\<lambda>(k, trend). (poly_degree trend, length (poly_coef trend)))
     (emitted (sort_process (SortWindowedHealthDataframe_init default_warmup 2) flat_fit
        stable_sort_values
        (''session'',
         [health_record 1 4 1 0.9, health_record 2 4 1 0.7, health_record 3 3 (- 1) 0.8])
        sample_window)) = [(1, 2)]"
  by code_simp

text \<open>
  C7 as stated fails: the transform does not look at how many distinct x values the fit
  gets. Three records at one timestamp give a series with a single x value, fewer than
  degree + 1 = 2; a fit that returns a polynomial there (numpy's does, with a warning
  that the fit may be poorly conditioned) is emitted, and no failure is logged.
\<close>

theorem degenerate_fit_emitted_counterexample:
  "map fst
     (xy_series [health_record 1 4 1 0.9, health_record 1 4 1 0.7, health_record 1 4 1 0.5]) =
     [1] \<and>
   polyfit_degree (SortWindowedHealthDataframe_init default_warmup default_polyfit_degree) + 1 =
     2 \<and>
   aggregate_view
     (sort_process (SortWindowedHealthDataframe_init default_warmup default_polyfit_degree)
        flat_fit stable_sort_values
        (''session'',
         [health_record 1 4 1 0.9, health_record 1 4 1 0.7, health_record 1 4 1 0.5])
        sample_window) =
     Inr ([Log_emitting 0 300],
          [(''session'',
            (''session'', [0.9], [0, 0], [1, 1], [], 1,
             mset [(0.9, 1, 4, 0.9), (0.7, 1, 4, 0.7), (0.5, 1, 4, 0.5)]))])"
  by (simp add: xy_series_eq distinct_timestamps_def per_timestamp_value_def positive_at_def
      negative_at_def health_record_def SortWindowedHealthDataframe_init_def
      default_warmup_def default_polyfit_degree_def aggregate_view_def trend_aggregate_def
      sort_process_def health_score_trend_polynomial_v1_def flat_fit_def
      stable_sort_values_def sample_window_def Let_def)

text \<open>
  C7 (amended). For every window with at least warm-up many records whose fit raises
  ValueError, the transform logs the failure, emits nothing for the window and returns
  normally: the ValueError does not leave \<open>process\<close>.
\<close>

theorem fit_ValueError_contained:
  assumes "sorted_by_ts sort_values records"
    and "records \<noteq> []" and "warmup self \<le> int (length records)"
    and "fit (map fst (xy_series records)) (map snd (xy_series records)) (polyfit_degree self) =
           Inl ValueError"
  shows "sort_process self fit sort_values (key, records) w =
           Inr ([Log_fatal_error ValueError], [])"
  using assms(2-4) sorted_by_ts_length [OF assms(1)] sorted_by_ts_xy_series [OF assms(1)]
  by (simp add: sort_process_def health_score_trend_polynomial_v1_def Let_def)

theorem fit_ValueError_contained_witness:
  "sort_process (SortWindowedHealthDataframe_init default_warmup default_polyfit_degree)
     flat_fit stable_sort_values
     (''session'', [health_record 1 1 0 0.9, health_record 2 1 0 0.7, health_record 3 1 0 0.5])
     sample_window = Inr ([Log_fatal_error ValueError], [])"
proof -
  let ?self = "SortWindowedHealthDataframe_init default_warmup default_polyfit_degree"
  let ?records = "[health_record 1 1 0 0.9, health_record 2 1 0 0.7, health_record 3 1 0 0.5]"
  have s: "sorted_by_ts stable_sort_values ?records"
    by (rule stable_sort_values_sorted_by_ts)
  have ne: "?records \<noteq> []" by simp
  have wu: "warmup ?self \<le> int (length ?records)"
    by (simp add: SortWindowedHealthDataframe_init_def default_warmup_def)
  have x: "xy_series ?records = []"
    by (simp add: xy_series_eq distinct_timestamps_def health_record_def)
  have f: "flat_fit (map fst (xy_series ?records)) (map snd (xy_series ?records))
             (polyfit_degree ?self) = Inl ValueError"
    unfolding x by (simp add: flat_fit_def)
  from fit_ValueError_contained [where fit = flat_fit, OF s ne wu f] show ?thesis .
qed

subsection \<open>The trajectory\<close>

text \<open>
  C2 as stated fails when a timestamp has only records of weight 0: the contract's
  trajectory has an entry for it (the running sum plus 0), the emitted one has none.
\<close>

theorem trajectory_zero_weight_counterexample:
  "map (\<lambda>(k, trend). tr_cumsum trend)
     (emitted (sort_process (SortWindowedHealthDataframe_init default_warmup 1) flat_fit
        stable_sort_values
        (''session'',
         [health_record 1 4 1 0.9, health_record 2 1 0 0.8, health_record 3 4 1 0.5])
        sample_window)) = [[0.9, 1.4]] \<and>
   spec_trajectory [health_record 1 4 1 0.9, health_record 2 1 0 0.8, health_record 3 4 1 0.5] =
     [0.9, 0.9, 1.4]"
  by code_simp

text \<open>
  C2 (amended). For every sort that returns the records in ascending order of \<open>ts\<close>:
  whenever the aggregator emits a trend for a record list (which then has at least
  warm-up many records), the trajectory it carries is the running sum, over the distinct
  timestamps of the records whose weight is not 0 in ascending order, of the
  per-timestamp value: the largest health score among the records of positive weight at
  the timestamp (0 if none) plus the smallest health score among those of negative weight
  (0 if none).
\<close>

theorem emitted_trajectory:
  assumes "sorted_by_ts sort_values records"
    and "(k, trend) \<in> set (emitted (sort_process self fit sort_values (key, records) w))"
  shows "tr_cumsum trend =
           running_sum 0 (map (per_timestamp_value records)
             (distinct_timestamps (filter (\<lambda>r. hr_health_weight r \<noteq> 0) records))) \<and>
         warmup self \<le> int (length records)"
proof -
  from assms(2) have ne: "emitted (sort_process self fit sort_values (key, records) w) \<noteq> []"
    by auto
  from sort_process_emits [OF assms(1) ne] assms(2)
  have c: "tr_cumsum trend = map snd (xy_series records)"
    and wu: "warmup self \<le> int (length records)"
    by (auto simp: emitted_def)
  from c wu show ?thesis
    by (simp add: xy_series_values)
qed

theorem emitted_trajectory_witness:
  "\<exists>trend.
     emitted (sort_process (SortWindowedHealthDataframe_init default_warmup 1) flat_fit
        stable_sort_values
        (''session'',
         [health_record 2 4 1 0.7, health_record 1 4 1 0.9, health_record 1 3 (- 1) 0.8])
        sample_window) = [(''session'', trend)] \<and>
     tr_cumsum trend = [0.1, 0.8] \<and>
     per_timestamp_value
       [health_record 2 4 1 0.7, health_record 1 4 1 0.9, health_record 1 3 (- 1) 0.8] 1 = 0.1"
proof -
  let ?self = "SortWindowedHealthDataframe_init default_warmup 1"
  let ?records = "[health_record 2 4 1 0.7, health_record 1 4 1 0.9, health_record 1 3 (- 1) 0.8]"
  let ?out = "emitted (sort_process ?self flat_fit stable_sort_values (''session'', ?records)
                sample_window)"
  have s: "sorted_by_ts stable_sort_values ?records"
    by (rule stable_sort_values_sorted_by_ts)
  have "map fst ?out = [''session'']"
    by code_simp
  then obtain trend where out: "?out = [(''session'', trend)]"
    by (cases ?out) auto
  then have m: "(''session'', trend) \<in> set ?out"
    by simp
  have v: "running_sum 0 (map (per_timestamp_value ?records)
             (distinct_timestamps (filter (\<lambda>r. hr_health_weight r \<noteq> 0) ?records))) =
           [0.1, 0.8]"
    by code_simp
  have p: "per_timestamp_value ?records 1 = 0.1"
    by code_simp
  from emitted_trajectory [OF s m] v have "tr_cumsum trend = [0.1, 0.8]"
    by simp
  with out p show ?thesis
    by blast
qed

subsection \<open>The same records, delivered again\<close>

text \<open>
  C9 as stated fails for the per-record arrays: the same three records delivered in two
  orders give two different arrays of health scores, since the two records at timestamp 1
  come out of the sort in their order of arrival.
\<close>

theorem record_order_counterexample:
  "map (\<lambda>(k, trend). tr_health_score trend)
     (emitted (sort_process (SortWindowedHealthDataframe_init default_warmup 1) flat_fit
        stable_sort_values
        (''session'',
         [health_record 1 4 1 0.9, health_record 1 3 (- 1) 0.8, health_record 2 4 1 0.7])
        sample_window)) = [[0.9, - 0.8, 0.7]] \<and>
   map (\<lambda>(k, trend). tr_health_score trend)
     (emitted (sort_process (SortWindowedHealthDataframe_init default_warmup 1) flat_fit
        stable_sort_values
        (''session'',
         [health_record 1 3 (- 1) 0.8, health_record 1 4 1 0.9, health_record 2 4 1 0.7])
        sample_window)) = [[- 0.8, 0.9, 0.7]]"
  by code_simp

lemma trend_rows:
  "mset (zip (map hr_health_score df)
          (zip (map hr_health_weight df)
            (zip (map hr_detection_class df) (map hr_detection_score df)))) =
   image_mset
     (\<lambda>r. (hr_health_score r, hr_health_weight r, hr_detection_class r, hr_detection_score r))
     (mset df)"
  by (induction df) auto

text \<open>
  C9 (amended). For every sort that returns the records in ascending order of \<open>ts\<close>: two
  deliveries of the same records for a window, in the same or in another order, end the
  same way (the same exception, or the same log), emit for both or for neither, and the
  trends they emit have the same key, trajectory and fitted polynomial and per-record
  arrays with the same rows; only the order of those rows, which is the sort's, can
  differ. The result depends on nothing but the configuration, the fit, the sort, the
  element and the window.
\<close>

theorem aggregate_same_records:
  assumes "mset records = mset records'"
    and "sorted_by_ts sort_values records"
    and "sorted_by_ts sort_values records'"
  shows "aggregate_view (sort_process self fit sort_values (key, records) w) =
         aggregate_view (sort_process self fit sort_values (key, records') w)"
proof -
  from assms(1) have s: "set records = set records'"
    by (rule mset_eq_setD)
  from assms(1) have l: "length records = length records'"
    by (rule mset_eq_length)
  then have e: "records = [] \<longleftrightarrow> records' = []"
    by auto
  have ll: "length (sort_values records) = length (sort_values records')"
    using l assms(2,3) by (simp add: sorted_by_ts_length)
  have "set (sort_values records) = set (sort_values records')"
    using s assms(2,3) by (simp add: sorted_by_ts_set)
  then have x: "xy_series (sort_values records) = xy_series (sort_values records')"
    by (rule xy_series_cong)
  have m: "mset (sort_values records) = mset (sort_values records')"
    using assms by (simp add: sorted_by_ts_def)
  show ?thesis
    using e ll x m
    by (auto simp: sort_process_def aggregate_view_def trend_aggregate_def trend_rows
        health_score_trend_polynomial_v1_def Let_def split: sum.splits)
qed

theorem aggregate_same_records_witness:
  "aggregate_view
     (sort_process (SortWindowedHealthDataframe_init default_warmup 1) flat_fit
        stable_sort_values
        (''session'',
         [health_record 1 4 1 0.9, health_record 1 3 (- 1) 0.8, health_record 2 4 1 0.7])
        sample_window) =
   aggregate_view
     (sort_process (SortWindowedHealthDataframe_init default_warmup 1) flat_fit
        stable_sort_values
        (''session'',
         [health_record 1 3 (- 1) 0.8, health_record 1 4 1 0.9, health_record 2 4 1 0.7])
        sample_window)"
proof -
  let ?a = "health_record 1 4 1 0.9"
  let ?b = "health_record 1 3 (- 1) 0.8"
  let ?c = "health_record 2 4 1 0.7"
  have m: "mset [?a, ?b, ?c] = mset [?b, ?a, ?c]"
    by (simp add: add_mset_commute)
  from aggregate_same_records [OF m stable_sort_values_sorted_by_ts
      stable_sort_values_sorted_by_ts]
  show ?thesis .
qed

section \<open>Theorems: the health record exploder\<close>

lemma collect_Inr:
  "collect f xs = Inr ys \<longleftrightarrow> list_all2 (\<lambda>x y. f x = Inr y) xs ys"
proof (induction xs arbitrary: ys)
  case Nil
  then show ?case by auto
next
  case (Cons x xs)
  show ?case
    by (cases ys) (auto split: sum.splits simp: Cons.IH [symmetric])
qed

lemma explode_at_Inr:
  assumes "explode_at cat element md i = Inr r"
  shows "hr_detection_score r = ev_detection_scores element ! i \<and>
         hr_detection_class r = ev_detection_classes element ! i \<and>
         cat (ev_detection_classes element ! i) = Some (hr_health_weight r) \<and>
         hr_ts r = ev_ts element \<and>
         hr_health_score r = hr_health_weight r * hr_detection_score r"
  using assms by (auto simp: explode_at_def split: if_splits option.splits)

text \<open>
  The exploder reads positions \<open>0 .. num_detections - 1\<close> of the scores and classes: when
  both arrays have \<open>num_detections\<close> entries and every class is a key of \<open>CATEGORY_INDEX\<close>
  it returns one record for each detection, in order, with health score = weight times
  score.
\<close>

lemma explode_process_records:
  assumes "int (length (ev_detection_scores element)) = ev_num_detections element"
    and "int (length (ev_detection_classes element)) = ev_num_detections element"
    and "set (ev_detection_classes element) \<subseteq> dom cat"
  shows "\<exists>rs. explode_process cat element w = Inr rs \<and>
           length rs = length (ev_detection_scores element) \<and>
           (\<forall>i < length rs.
              hr_detection_score (rs ! i) = ev_detection_scores element ! i \<and>
              hr_detection_class (rs ! i) = ev_detection_classes element ! i \<and>
              cat (ev_detection_classes element ! i) = Some (hr_health_weight (rs ! i)) \<and>
              hr_ts (rs ! i) = ev_ts element \<and>
              hr_health_score (rs ! i) = hr_health_weight (rs ! i) * hr_detection_score (rs ! i))"
proof -
  let ?n = "length (ev_detection_scores element)"
  let ?md = "\<lparr>md_client_version = ev_client_version element,
                  md_print_session = ev_print_session element,
                  md_user_id = ev_user_id element,
                  md_octoprint_device_id = ev_octoprint_device_id element,
                  md_cloudiot_device_id = ev_cloudiot_device_id element,
                  md_window_start = Some (win_start w),
                  md_window_end = Some (win_end w)\<rparr>"
  from assms have n: "nat (ev_num_detections element) = ?n"
    and lc: "length (ev_detection_classes element) = ?n"
    by auto
  have k: "\<forall>i < ?n. \<exists>wt. cat (ev_detection_classes element ! i) = Some wt"
    using assms(3) lc by (metis domD nth_mem subsetD)
  then have "\<forall>i < ?n. \<exists>r. explode_at cat element ?md i = Inr r"
    using lc by (auto simp: explode_at_def split: option.splits)
  then obtain g where g: "\<forall>i < ?n. explode_at cat element ?md i = Inr (g i)"
    by metis
  let ?rs = "map g [0 ..< ?n]"
  have "list_all2 (\<lambda>i r. explode_at cat element ?md i = Inr r) [0 ..< ?n] ?rs"
    using g by (simp add: list_all2_conv_all_nth)
  then have r: "explode_process cat element w = Inr ?rs"
    by (simp add: explode_process_def n collect_Inr)
  have "\<forall>i < ?n.
              hr_detection_score (g i) = ev_detection_scores element ! i \<and>
              hr_detection_class (g i) = ev_detection_classes element ! i \<and>
              cat (ev_detection_classes element ! i) = Some (hr_health_weight (g i)) \<and>
              hr_ts (g i) = ev_ts element \<and>
              hr_health_score (g i) = hr_health_weight (g i) * hr_detection_score (g i)"
    using g explode_at_Inr by blast
  with r show ?thesis
    by (intro exI [of _ ?rs]) simp
qed

end
